theory Spec2Isabelle
  imports Main "HOL-Library.Multiset"
begin

section \<open>The top-up backend (server.js) as a shallow embedding\<close>

text \<open>
  The backend is an Express application over two SQLite tables, \<open>orders\<close> and
  \<open>admins\<close>. Each route handler is modelled as a function from the request and the
  current tables to the response and the updated tables. What a handler takes from its
  environment is an argument of the model:
  \<^item> \<open>io_err\<close>: the storage engine reports an error for the handler's statement (the
    \<open>err\<close> argument of the sqlite3 callback is set for a reason other than a constraint of
    the schema); constraint violations are computed from the tables;
  \<^item> \<open>uuid\<close>: the value \<open>uuidv4()\<close> returned for this request;
  \<^item> \<open>now\<close>: the value of \<open>CURRENT_TIMESTAMP\<close> when the row is inserted, in seconds;
  \<^item> \<open>text_of\<close>: the text SQLite stores or compares when a bound parameter that is not
    a string meets a column of TEXT affinity;
  \<^item> \<open>compare\<close> and \<open>hash\<close>: the outcomes of \<open>bcrypt.compare\<close> and \<open>bcrypt.hash\<close>.

  The handlers are the callbacks registered with \<open>app.post\<close> and \<open>app.get\<close>; each one is
  taken as a single atomic step. The middleware in front of them (helmet, the body
  parsers, the static files, the session store, the rate limiter) is not part of the
  handlers and is not modelled.
\<close>

subsection \<open>JavaScript values of a request body\<close>

text \<open>
  A field of \<open>req.body\<close> is absent (\<open>undefined\<close> after destructuring) or a JSON scalar.
  A string is the list of the bytes of its UTF-8 encoding. A number \<open>n\<close> is given by the
  text \<open>String(n)\<close>, which is all the handlers read of it besides its truth value:
  \<open>42\<close>, \<open>-5\<close>, \<open>0.5\<close>, \<open>1e+21\<close>, \<open>Infinity\<close>; both zeros have the text \<open>0\<close>. This covers
  every number, fractions and exponent notation included. Arrays and nested objects are
  not modelled.
\<close>

datatype jsval = JUndefined | JNull | JBool bool | JNum string | JStr string

text \<open>
  \<open>truthy v\<close> is the value of \<open>!!v\<close>, so \<open>\<not> truthy v\<close> is the test \<open>!v\<close> of the handlers. The
  numbers that are not truthy are \<open>0\<close>, \<open>-0\<close> and \<open>NaN\<close>.
\<close>

fun truthy :: "jsval \<Rightarrow> bool" where
  "truthy JUndefined = False"
| "truthy JNull = False"
| "truthy (JBool b) = b"
| "truthy (JNum t) = (t \<noteq> ''0'' \<and> t \<noteq> ''NaN'')"
| "truthy (JStr s) = (s \<noteq> [])"

text \<open>\<open>ToString\<close> is the conversion \<open>parseInt\<close> applies to its first argument.\<close>

fun ToString :: "jsval \<Rightarrow> string" where
  "ToString JUndefined = ''undefined''"
| "ToString JNull = ''null''"
| "ToString (JBool b) = (if b then ''true'' else ''false'')"
| "ToString (JNum t) = t"
| "ToString (JStr s) = s"

subsection \<open>The numbers \<open>parseInt\<close> returns\<close>

text \<open>
  \<open>parseInt\<close> returns a double: \<open>NaN\<close>, an infinity, or a double whose value is an integer
  (\<open>Finite i\<close>; the result \<open>-0\<close> is \<open>Finite 0\<close>, which the handler does not tell
  from \<open>0\<close>). \<open>isNaN\<close> and \<open>le_zero\<close> are the two tests of the handler, \<open>isNaN(x)\<close> and
  \<open>x <= 0\<close>.
\<close>

datatype number = NaN | Finite int | PosInf | NegInf

fun isNaN :: "number \<Rightarrow> bool" where
  "isNaN NaN = True"
| "isNaN _ = False"

fun le_zero :: "number \<Rightarrow> bool" where
  "le_zero NaN = False"
| "le_zero (Finite i) = (i \<le> 0)"
| "le_zero PosInf = False"
| "le_zero NegInf = True"

fun negate :: "number \<Rightarrow> number" where
  "negate NaN = NaN"
| "negate (Finite i) = Finite (- i)"
| "negate PosInf = NegInf"
| "negate NegInf = PosInf"

text \<open>
  \<open>to_double n\<close> is the double nearest to the natural number \<open>n\<close>, ties to the even
  significand: \<open>n\<close> itself below \<open>2^53\<close>; from there on \<open>n\<close> is cut to its 53 leading bits
  \<open>q\<close> and rounded by the \<open>e\<close> bits \<open>r\<close> that are dropped; a result of \<open>2^1024\<close> or more is
  \<open>Infinity\<close>. \<open>bitlen n\<close> is the number of bits of \<open>n\<close>.
\<close>

fun bitlen :: "nat \<Rightarrow> nat" where
  "bitlen n = (if n = 0 then 0 else Suc (bitlen (n div 2)))"

declare bitlen.simps [simp del]

definition to_double :: "nat \<Rightarrow> number" where
  "to_double n =
     (if n < 2 ^ 53 then Finite (int n)
      else let e = bitlen n - 53;
               q = n div 2 ^ e;
               r = n mod 2 ^ e;
               m = (if 2 ^ e < 2 * r \<or> (2 * r = 2 ^ e \<and> odd q) then q + 1 else q)
           in if 2 ^ 1024 \<le> m * 2 ^ e then PosInf else Finite (int (m * 2 ^ e)))"

subsection \<open>\<open>parseInt(string, 10)\<close>\<close>

text \<open>
  \<open>parseInt\<close> with radix 10: leading white space is dropped, one sign is read, and the
  longest prefix of decimal digits of what follows is the number, converted to a double
  (V8 converts the exact value of the digits); with no digit there the result is \<open>NaN\<close>.

  The white space is JavaScript's \<open>WhiteSpace\<close> and \<open>LineTerminator\<close>, in UTF-8: the
  single bytes TAB, LF, VT, FF, CR and SP (\<open>ws1\<close>); U+00A0 as \<open>C2 A0\<close> (\<open>ws2\<close>); and, in
  three bytes (\<open>ws3\<close>), U+1680 as \<open>E1 9A 80\<close>, U+2000 to U+200A as \<open>E2 80 80\<close> to
  \<open>E2 80 8A\<close>, U+2028, U+2029 and U+202F as \<open>E2 80 A8\<close>, \<open>E2 80 A9\<close> and \<open>E2 80 AF\<close>,
  U+205F as \<open>E2 81 9F\<close>, U+3000 as \<open>E3 80 80\<close> and U+FEFF as \<open>EF BB BF\<close>.
\<close>

definition ws1 :: "char \<Rightarrow> bool" where
  "ws1 a \<longleftrightarrow> of_char a \<in> {9, 10, 11, 12, 13, 32 :: nat}"

definition ws2 :: "char \<Rightarrow> char \<Rightarrow> bool" where
  "ws2 a b \<longleftrightarrow> (of_char a :: nat) = 194 \<and> (of_char b :: nat) = 160"

definition ws3 :: "char \<Rightarrow> char \<Rightarrow> char \<Rightarrow> bool" where
  "ws3 a b c \<longleftrightarrow>
     (let x = (of_char a :: nat); y = (of_char b :: nat); z = (of_char c :: nat)
      in (x = 225 \<and> y = 154 \<and> z = 128) \<or>
         (x = 226 \<and> y = 128 \<and> ((128 \<le> z \<and> z \<le> 138) \<or> z = 168 \<or> z = 169 \<or> z = 175)) \<or>
         (x = 226 \<and> y = 129 \<and> z = 159) \<or>
         (x = 227 \<and> y = 128 \<and> z = 128) \<or>
         (x = 239 \<and> y = 187 \<and> z = 191))"

fun skip_ws :: "string \<Rightarrow> string" where
  "skip_ws (a # b # c # s) =
     (if ws1 a then skip_ws (b # c # s)
      else if ws2 a b then skip_ws (c # s)
      else if ws3 a b c then skip_ws s
      else a # b # c # s)"
| "skip_ws [a, b] =
     (if ws1 a then skip_ws [b] else if ws2 a b then [] else [a, b])"
| "skip_ws [a] = (if ws1 a then [] else [a])"
| "skip_ws [] = []"

definition is_digit :: "char \<Rightarrow> bool" where
  "is_digit c \<longleftrightarrow> 48 \<le> (of_char c :: nat) \<and> (of_char c :: nat) \<le> 57"

definition digit_val :: "char \<Rightarrow> nat" where
  "digit_val c = of_char c - 48"

definition dec_val :: "string \<Rightarrow> nat" where
  "dec_val ds = foldl (\<lambda>a c. 10 * a + digit_val c) 0 ds"

definition parseInt :: "string \<Rightarrow> number" where
  "parseInt inputString =
     (let S = skip_ws inputString;
          neg = (S \<noteq> [] \<and> hd S = CHR ''-'');
          S' = (if S \<noteq> [] \<and> (hd S = CHR ''+'' \<or> hd S = CHR ''-'') then tl S else S);
          Z = takeWhile is_digit S'
      in if Z = [] then NaN
         else if neg then negate (to_double (dec_val Z)) else to_double (dec_val Z))"

subsection \<open>The tables\<close>

text \<open>
  \<open>orders(id TEXT PRIMARY KEY, user TEXT, game TEXT, amount INTEGER, status TEXT,
  created_at DATETIME DEFAULT CURRENT_TIMESTAMP)\<close> and
  \<open>admins(id INTEGER PRIMARY KEY AUTOINCREMENT, username TEXT UNIQUE, password_hash TEXT)\<close>.
  A table is the list of its rows in insertion order. \<open>status\<close> is a TEXT column, so it
  is a string here, not an enumeration. \<open>amount\<close> holds the number the handler binds: the
  column keeps its value (as INTEGER while it fits 64 bits, as REAL beyond, \<open>Infinity\<close>
  included). \<open>created_at\<close> is a time in seconds, which orders as the text
  \<open>YYYY-MM-DD HH:MM:SS\<close> does.
\<close>

record order =
  order_id :: string
  user :: string
  game :: string
  amount :: number
  status :: string
  created_at :: nat

record admin =
  admin_id :: nat
  username :: string
  password_hash :: string

record db =
  orders :: "order list"
  admins :: "admin list"
  admin_seq :: nat

text \<open>\<open>INSERT INTO orders\<close>: refused when the primary key is already in the table.\<close>

definition insert_order :: "bool \<Rightarrow> order \<Rightarrow> db \<Rightarrow> db option" where
  "insert_order io_err row d =
     (if io_err \<or> order_id row \<in> set (map order_id (orders d)) then None
      else Some (d\<lparr>orders := orders d @ [row]\<rparr>))"

text \<open>\<open>UPDATE orders SET status = ? WHERE id = ?\<close>: every row whose id is the given text.\<close>

definition update_status :: "bool \<Rightarrow> string \<Rightarrow> string \<Rightarrow> db \<Rightarrow> db option" where
  "update_status io_err st i d =
     (if io_err then None
      else Some (d\<lparr>orders := map (\<lambda>r. if order_id r = i then r\<lparr>status := st\<rparr> else r) (orders d)\<rparr>))"

text \<open>
  \<open>SELECT * FROM orders ORDER BY created_at DESC LIMIT 200\<close>. SQL leaves the order of rows
  with equal \<open>created_at\<close> open; the model keeps them in insertion order.
\<close>

definition select_orders :: "bool \<Rightarrow> db \<Rightarrow> order list option" where
  "select_orders io_err d =
     (if io_err then None
      else Some (take 200 (sort_key (\<lambda>r. - int (created_at r)) (orders d))))"

text \<open>\<open>SELECT COUNT(*) as c FROM admins\<close>.\<close>

definition count_admins :: "bool \<Rightarrow> db \<Rightarrow> nat option" where
  "count_admins io_err d = (if io_err then None else Some (length (admins d)))"

text \<open>
  \<open>INSERT INTO admins(username,password_hash)\<close>: refused when the username is already in
  the table (\<open>UNIQUE\<close>); the id is the next one of the AUTOINCREMENT sequence.
\<close>

definition insert_admin :: "bool \<Rightarrow> string \<Rightarrow> string \<Rightarrow> db \<Rightarrow> db option" where
  "insert_admin io_err u h d =
     (if io_err \<or> u \<in> set (map username (admins d)) then None
      else let i = Suc (fold max (map admin_id (admins d)) (admin_seq d))
           in Some (d\<lparr>admins := admins d @ [\<lparr>admin_id = i, username = u, password_hash = h\<rparr>],
                      admin_seq := i\<rparr>))"

text \<open>\<open>db.get('SELECT * FROM admins WHERE username = ?')\<close>: the first matching row, if any.\<close>

definition get_admin :: "bool \<Rightarrow> string \<Rightarrow> db \<Rightarrow> admin option option" where
  "get_admin io_err u d =
     (if io_err then None else Some (find (\<lambda>a. username a = u) (admins d)))"

text \<open>A bound parameter meeting a TEXT column: a string as it is, another value through \<open>text_of\<close>.\<close>

definition sql_text :: "(jsval \<Rightarrow> string) \<Rightarrow> jsval \<Rightarrow> string" where
  "sql_text text_of v = (case v of JStr s \<Rightarrow> s | _ \<Rightarrow> text_of v)"

subsection \<open>Responses\<close>

datatype body =
    ErrorBody string
  | TopupBody string string
  | OkBody
  | OrdersBody "order list"

type_synonym response = "nat \<times> body"

subsection \<open>POST /api/topup\<close>

record topup_req =
  protocol :: string
  host :: string
  b_user :: jsval
  b_game :: jsval
  b_amount :: jsval

definition post_topup ::
  "bool \<Rightarrow> (jsval \<Rightarrow> string) \<Rightarrow> string \<Rightarrow> nat \<Rightarrow> topup_req \<Rightarrow> db \<Rightarrow> db \<times> response" where
  "post_topup io_err text_of uuid now req d =
     (if \<not> truthy (b_user req) \<or> \<not> truthy (b_game req) \<or> \<not> truthy (b_amount req)
      then (d, (400, ErrorBody ''Missing fields''))
      else let numericAmount = parseInt (ToString (b_amount req)) in
        if isNaN numericAmount \<or> le_zero numericAmount
        then (d, (400, ErrorBody ''Invalid amount''))
        else
          (case insert_order io_err
                  \<lparr>order_id = uuid, user = sql_text text_of (b_user req),
                   game = sql_text text_of (b_game req), amount = numericAmount,
                   status = ''PENDING'', created_at = now\<rparr> d of
             None \<Rightarrow> (d, (500, ErrorBody ''DB error''))
           | Some d' \<Rightarrow>
               (d', (200, TopupBody uuid
                  (protocol req @ ''://'' @ host req @ ''/success?order='' @ uuid)))))"

subsection \<open>POST /api/admin/login\<close>

text \<open>
  The session of the requesting client is \<open>req.session.admin\<close>: absent (\<open>None\<close>) or the
  object the login handler stored. \<open>compare password hash\<close> is the \<open>ok\<close> that
  \<open>bcrypt.compare\<close> hands to its callback, read as a truth value.
\<close>

record admin_session =
  sess_id :: nat
  sess_username :: string

definition post_login ::
  "bool \<Rightarrow> (jsval \<Rightarrow> string) \<Rightarrow> (jsval \<Rightarrow> string \<Rightarrow> bool) \<Rightarrow> jsval \<Rightarrow> jsval \<Rightarrow>
   admin_session option \<Rightarrow> db \<Rightarrow> admin_session option \<times> response" where
  "post_login io_err text_of compare uname password sess d =
     (if \<not> truthy uname \<or> \<not> truthy password then (sess, (400, ErrorBody ''Missing''))
      else case get_admin io_err (sql_text text_of uname) d of
        None \<Rightarrow> (sess, (500, ErrorBody ''DB''))
      | Some None \<Rightarrow> (sess, (401, ErrorBody ''Unauthorized''))
      | Some (Some row) \<Rightarrow>
          if compare password (password_hash row)
          then (Some \<lparr>sess_id = admin_id row, sess_username = username row\<rparr>, (200, OkBody))
          else (sess, (401, ErrorBody ''Unauthorized'')))"

subsection \<open>GET /api/admin/orders\<close>

definition get_admin_orders :: "bool \<Rightarrow> admin_session option \<Rightarrow> db \<Rightarrow> response" where
  "get_admin_orders io_err sess d =
     (case sess of
        None \<Rightarrow> (401, ErrorBody ''unauth'')
      | Some _ \<Rightarrow>
          (case select_orders io_err d of
             None \<Rightarrow> (500, ErrorBody ''DB'')
           | Some rows \<Rightarrow> (200, OrdersBody rows)))"

subsection \<open>POST /api/webhook/mock-pay\<close>

definition post_mock_pay :: "bool \<Rightarrow> (jsval \<Rightarrow> string) \<Rightarrow> jsval \<Rightarrow> db \<Rightarrow> db \<times> response" where
  "post_mock_pay io_err text_of orderId d =
     (if \<not> truthy orderId then (d, (400, ErrorBody ''missing orderId''))
      else case update_status io_err ''PAID'' (sql_text text_of orderId) d of
        None \<Rightarrow> (d, (500, ErrorBody ''DB''))
      | Some d' \<Rightarrow> (d', (200, OkBody)))"

subsection \<open>POST /api/admin/logout\<close>

definition post_logout :: "admin_session option \<Rightarrow> admin_session option \<times> response" where
  "post_logout sess = (None, (200, OkBody))"

subsection \<open>Seeding the admins table at start\<close>

text \<open>
  The callback of \<open>CREATE TABLE IF NOT EXISTS admins\<close>. \<open>hash pass rounds\<close> is what
  \<open>bcrypt.hash\<close> hands to its callback: \<open>None\<close> for an error, otherwise the salted hash.
  The insert has no callback, so a refused insert leaves the table as it was.
\<close>

definition seed_admin ::
  "bool \<Rightarrow> bool \<Rightarrow> (string \<Rightarrow> nat \<Rightarrow> string option) \<Rightarrow> db \<Rightarrow> db" where
  "seed_admin count_err insert_err hash d =
     (case count_admins count_err d of
        None \<Rightarrow> d
      | Some c \<Rightarrow>
          if c = 0 then
            (case hash ''changeit'' 10 of
               None \<Rightarrow> d
             | Some h \<Rightarrow>
                 (case insert_admin insert_err ''admin'' h d of None \<Rightarrow> d | Some d' \<Rightarrow> d'))
          else d)"

subsection \<open>Runs of the order operations\<close>

text \<open>
  The two handlers that write the orders table, as operations with their environment.
  \<open>uuidv4()\<close> returns a string of 36 characters in the layout
  \<open>xxxxxxxx-xxxx-4xxx-yxxx-xxxxxxxxxxxx\<close> (lower-case hexadecimal digits, \<open>y\<close> one of
  8, 9, a, b); \<open>is_uuid\<close> says so, and \<open>wf_op\<close> requires it of the id a creation uses.
\<close>

fun uuid_from :: "nat \<Rightarrow> string \<Rightarrow> bool" where
  "uuid_from i [] = (i = 36)"
| "uuid_from i (c # cs) =
     (i < 36 \<and>
      (if i = 8 \<or> i = 13 \<or> i = 18 \<or> i = 23 then c = CHR ''-''
       else if i = 14 then c = CHR ''4''
       else if i = 19 then c \<in> set ''89ab''
       else c \<in> set ''0123456789abcdef'') \<and>
      uuid_from (Suc i) cs)"

definition is_uuid :: "string \<Rightarrow> bool" where
  "is_uuid s = uuid_from 0 s"

datatype op =
    CreateOrder bool string nat topup_req
  | MarkPaid bool jsval

fun wf_op :: "op \<Rightarrow> bool" where
  "wf_op (CreateOrder io_err uuid now req) = is_uuid uuid"
| "wf_op (MarkPaid io_err orderId) = True"

fun exec :: "(jsval \<Rightarrow> string) \<Rightarrow> op \<Rightarrow> db \<Rightarrow> db" where
  "exec text_of (CreateOrder io_err uuid now req) d = fst (post_topup io_err text_of uuid now req d)"
| "exec text_of (MarkPaid io_err orderId) d = fst (post_mock_pay io_err text_of orderId d)"


text \<open>The states of the tables the operations can reach from an empty orders table.\<close>

inductive reachable :: "(jsval \<Rightarrow> string) \<Rightarrow> db \<Rightarrow> bool" for text_of :: "jsval \<Rightarrow> string" where
  reachable_init: "orders d = [] \<Longrightarrow> reachable text_of d"
| reachable_step: "reachable text_of d \<Longrightarrow> wf_op x \<Longrightarrow> reachable text_of (exec text_of x d)"


text \<open>
  The invariant of the orders table: the ids are pairwise different and have the layout
  of a version 4 UUID, and every status is one of the two texts the handlers write.
\<close>

definition orders_inv :: "db \<Rightarrow> bool" where
  "orders_inv d \<longleftrightarrow>
     distinct (map order_id (orders d)) \<and>
     (\<forall>r\<in>set (orders d). is_uuid (order_id r) \<and> (status r = ''PENDING'' \<or> status r = ''PAID''))"

subsection \<open>Sample data\<close>

text \<open>Concrete values at which the theorems below are instantiated.\<close>

definition empty_db :: db where
  "empty_db = \<lparr>orders = [], admins = [], admin_seq = 0\<rparr>"

definition sample_uuid :: string where
  "sample_uuid = ''123e4567-e89b-42d3-a456-426614174000''"

definition sample_req :: topup_req where
  "sample_req = \<lparr>protocol = ''http'', host = ''localhost:3000'', b_user = JStr ''alice'',
                  b_game = JStr ''COIN-100'', b_amount = JStr ''50000''\<rparr>"

definition sample_order :: order where
  "sample_order = \<lparr>order_id = sample_uuid, user = ''alice'', game = ''COIN-100'',
                    amount = Finite 50000, status = ''PENDING'', created_at = 7\<rparr>"

definition one_db :: db where
  "one_db = empty_db\<lparr>orders := [sample_order]\<rparr>"

definition later_order :: order where
  "later_order = \<lparr>order_id = ''9b2d7c1e-3f4a-4b5c-8d6e-7f8091a2b3c4'', user = ''bob'',
                   game = ''COIN-500'', amount = Finite 120, status = ''PENDING'', created_at = 9\<rparr>"

definition two_db :: db where
  "two_db = empty_db\<lparr>orders := [sample_order, later_order]\<rparr>"



definition sample_admin :: admin where
  "sample_admin = \<lparr>admin_id = 1, username = ''admin'', password_hash = ''$2b$10$seedhash''\<rparr>"

definition admin_db :: db where
  "admin_db = \<lparr>orders = [], admins = [sample_admin], admin_seq = 1\<rparr>"

definition sample_hash :: "string \<Rightarrow> nat \<Rightarrow> string option" where
  "sample_hash pass rounds = Some ''$2b$10$seedhash''"

definition sample_compare :: "jsval \<Rightarrow> string \<Rightarrow> bool" where
  "sample_compare password h \<longleftrightarrow> password = JStr ''changeit'' \<and> h = ''$2b$10$seedhash''"

definition sample_session :: admin_session where
  "sample_session = \<lparr>sess_id = 1, sess_username = ''admin''\<rparr>"

definition no_text :: "jsval \<Rightarrow> string" where
  "no_text v = []"

section \<open>Properties\<close>

subsection \<open>\<open>parseInt\<close> on leading digits\<close>

lemmas parseInt_eval = parseInt_def ws1_def ws2_def ws3_def is_digit_def dec_val_def digit_val_def

lemmas sample_defs = one_db_def empty_db_def sample_order_def sample_uuid_def no_text_def

text \<open>The number of bits bounds a number from below.\<close>

lemma bitlen_lower: "n \<noteq> 0 \<Longrightarrow> 2 ^ (bitlen n - 1) \<le> n"
proof (induction n rule: bitlen.induct)
  case (1 n)
  show ?case
  proof (cases "n div 2 = 0")
    case True
    with "1.prems" have "n = 1" by presburger
    then show ?thesis by (simp add: bitlen.simps [of "Suc 0"] bitlen.simps [of 0])
  next
    case False
    with "1.IH" "1.prems" have ih: "2 ^ (bitlen (n div 2) - 1) \<le> n div 2" by simp
    from False have "bitlen (n div 2) \<noteq> 0" by (simp add: bitlen.simps [of "n div 2"])
    then have "(2::nat) ^ bitlen (n div 2) = 2 * 2 ^ (bitlen (n div 2) - 1)"
      by (cases "bitlen (n div 2)") simp_all
    with ih have "2 ^ bitlen (n div 2) \<le> 2 * (n div 2)" by simp
    also have "\<dots> \<le> n" by simp
    finally show ?thesis using "1.prems" by (simp add: bitlen.simps [of n])
  qed
qed

text \<open>The double of a positive number passes both tests of the handler.\<close>

lemma to_double_pos:
  assumes "0 < n"
  shows "\<not> isNaN (to_double n) \<and> \<not> le_zero (to_double n)"
proof (cases "n < 2 ^ 53")
  case True
  with assms show ?thesis by (simp add: to_double_def)
next
  case False
  define e where "e = bitlen n - 53"
  define m where "m = (if 2 ^ e < 2 * (n mod 2 ^ e) \<or> (2 * (n mod 2 ^ e) = 2 ^ e \<and> odd (n div 2 ^ e))
      then n div 2 ^ e + 1 else n div 2 ^ e)"
  have "(2::nat) ^ e \<le> 2 ^ (bitlen n - 1)"
    unfolding e_def by (rule power_increasing) simp_all
  also from assms bitlen_lower [of n] have "\<dots> \<le> n" by simp
  finally have "0 < n div 2 ^ e" by (simp add: div_greater_zero_iff)
  then have "0 < m" by (simp add: m_def)
  define p where "p = m * 2 ^ e"
  from \<open>0 < m\<close> have pos: "0 < p" by (simp add: p_def)
  from False have "to_double n = (if 2 ^ 1024 \<le> p then PosInf else Finite (int p))"
    unfolding to_double_def Let_def e_def m_def p_def by (simp only: if_False)
  with pos show ?thesis by simp
qed

text \<open>Up to \<open>2^53\<close> the double is the number itself.\<close>

lemma to_double_exact: "n \<le> 2 ^ 53 \<Longrightarrow> to_double n = Finite (int n)"
proof (cases "n < 2 ^ 53")
  case True
  then show ?thesis by (simp add: to_double_def)
next
  case False
  assume "n \<le> 2 ^ 53"
  with False have n: "n = 9007199254740992" by simp
  have "to_double 9007199254740992 = Finite 9007199254740992"
    by (simp add: to_double_def bitlen.simps)
  with n show ?thesis by simp
qed

text \<open>The first number above \<open>2^53\<close> is a tie and rounds down to the even significand.\<close>

lemma to_double_tie: "to_double 9007199254740993 = Finite 9007199254740992"
proof -
  have "bitlen 9007199254740993 = 54" by (simp add: bitlen.simps)
  then show ?thesis by (simp add: to_double_def)
qed

lemma skip_ws_keep:
  assumes "\<not> ws1 a" and "\<And>b. \<not> ws2 a b" and "\<And>b c. \<not> ws3 a b c"
  shows "skip_ws (a # s) = a # s"
proof (cases s)
  case Nil
  with assms show ?thesis by simp
next
  case (Cons b s1)
  with assms show ?thesis by (cases s1) simp_all
qed

lemma digit_not_ws: "is_digit a \<Longrightarrow> \<not> ws1 a \<and> \<not> ws2 a b \<and> \<not> ws3 a b c"
  by (simp add: is_digit_def ws1_def ws2_def ws3_def)

lemma skip_ws_digit: "is_digit a \<Longrightarrow> skip_ws (a # s) = a # s"
  by (rule skip_ws_keep) (simp_all add: digit_not_ws)

lemma digit_not_sign: "is_digit c \<Longrightarrow> c \<noteq> CHR ''-'' \<and> c \<noteq> CHR ''+''"
  by (auto simp: is_digit_def)

lemma parseInt_leading:
  assumes "ds \<noteq> []" and "\<forall>c\<in>set ds. is_digit c" and "rest = [] \<or> \<not> is_digit (hd rest)"
  shows "parseInt (ds @ rest) = to_double (dec_val ds)"
proof -
  from assms(1) obtain c cs where ds: "ds = c # cs" by (cases ds) auto
  with assms(2) have c: "is_digit c" by simp
  then have ws: "skip_ws (ds @ rest) = ds @ rest"
    by (simp add: ds skip_ws_digit)
  from assms(3) have "takeWhile is_digit rest = []"
    by (cases rest) auto
  with assms(2) have tw: "takeWhile is_digit (ds @ rest) = ds"
    by (simp add: takeWhile_append2)
  from c digit_not_sign[of c] have sg: "hd (ds @ rest) \<noteq> CHR ''-''" "hd (ds @ rest) \<noteq> CHR ''+''"
    by (simp_all add: ds)
  show ?thesis
    unfolding parseInt_def ws Let_def using sg tw assms(1) by simp
qed

text \<open>An amount that passes both tests on the parsed number has passed the test \<open>!amount\<close>.\<close>

lemma parse_pos_truthy:
  assumes "\<not> isNaN (parseInt (ToString v))" and "\<not> le_zero (parseInt (ToString v))"
  shows "truthy v"
proof (cases v)
  case JUndefined
  with assms(1) show ?thesis by (simp add: parseInt_eval)
next
  case JNull
  with assms(1) show ?thesis by (simp add: parseInt_eval)
next
  case (JBool b)
  with assms(1) show ?thesis by (cases b) (simp_all add: parseInt_eval)
next
  case (JNum t)
  have "parseInt ''0'' = Finite 0" "parseInt ''NaN'' = NaN"
    by (simp_all add: parseInt_eval to_double_def)
  with assms JNum show ?thesis by auto
next
  case (JStr s)
  have "parseInt [] = NaN" by (simp add: parseInt_def)
  with assms(1) JStr show ?thesis by auto
qed

subsection \<open>Order creation: rejected requests\<close>



subsection \<open>Order creation: accepted requests\<close>

text \<open>
  C4, as the code has it. A request to POST /api/topup with \<open>user\<close> and \<open>game\<close> present and
  an amount that parses to a number above 0, when the store reports no error: if the id
  \<open>uuidv4()\<close> returned is not the id of a stored order, the order is appended with that
  id, the parsed amount and status PENDING, and the answer is 200 with that id as
  \<open>orderId\<close> and the \<open>paymentUrl\<close> \<open>protocol://host/success?order=id\<close>. An id that is already
  stored is refused by the primary key (answer 500, nothing stored), so the ids of the
  table stay pairwise different: no id is issued twice.
\<close>

theorem create_order_valid:
  assumes "truthy (b_user req)" and "truthy (b_game req)"
    and "\<not> isNaN (parseInt (ToString (b_amount req)))"
    and "\<not> le_zero (parseInt (ToString (b_amount req)))" and "\<not> io_err"
  shows "(uuid \<notin> set (map order_id (orders d)) \<longrightarrow>
            post_topup io_err text_of uuid now req d =
              (d\<lparr>orders := orders d @
                    [\<lparr>order_id = uuid, user = sql_text text_of (b_user req),
                      game = sql_text text_of (b_game req),
                      amount = parseInt (ToString (b_amount req)),
                      status = ''PENDING'', created_at = now\<rparr>]\<rparr>,
               (200, TopupBody uuid (protocol req @ ''://'' @ host req @ ''/success?order='' @ uuid)))) \<and>
         (uuid \<in> set (map order_id (orders d)) \<longrightarrow>
            post_topup io_err text_of uuid now req d = (d, (500, ErrorBody ''DB error''))) \<and>
         (distinct (map order_id (orders d)) \<longrightarrow>
            distinct (map order_id (orders (fst (post_topup io_err text_of uuid now req d)))))"
proof -
  from assms(3,4) have "truthy (b_amount req)" by (rule parse_pos_truthy)
  with assms show ?thesis
    by (auto simp: post_topup_def insert_order_def Let_def)
qed

theorem create_order_valid_witness:
  "truthy (b_user sample_req) \<and> truthy (b_game sample_req) \<and>
   parseInt (ToString (b_amount sample_req)) = Finite 50000 \<and>
   sample_uuid \<notin> set (map order_id (orders empty_db)) \<and>
   post_topup False no_text sample_uuid 7 sample_req empty_db =
     (one_db, (200, TopupBody sample_uuid (''http://localhost:3000/success?order='' @ sample_uuid))) \<and>
   post_topup False no_text sample_uuid 7 (sample_req\<lparr>b_amount := JNum ''50000''\<rparr>) empty_db =
     (one_db, (200, TopupBody sample_uuid (''http://localhost:3000/success?order='' @ sample_uuid))) \<and>
   parseInt (ToString (JNum ''1e+21'')) = Finite 1 \<and>
   post_topup False no_text sample_uuid 7 (sample_req\<lparr>b_amount := JNum ''1e+21''\<rparr>) empty_db =
     (empty_db\<lparr>orders := [sample_order\<lparr>amount := Finite 1\<rparr>]\<rparr>,
      (200, TopupBody sample_uuid (''http://localhost:3000/success?order='' @ sample_uuid))) \<and>
   parseInt (ToString (JStr [CHR 0xC2, CHR 0xA0, CHR ''4'', CHR ''2''])) = Finite 42 \<and>
   post_topup False no_text sample_uuid 7
       (sample_req\<lparr>b_amount := JStr [CHR 0xC2, CHR 0xA0, CHR ''4'', CHR ''2'']\<rparr>) empty_db =
     (empty_db\<lparr>orders := [sample_order\<lparr>amount := Finite 42\<rparr>]\<rparr>,
      (200, TopupBody sample_uuid (''http://localhost:3000/success?order='' @ sample_uuid)))"
proof -
  have p: "parseInt (ToString (b_amount sample_req)) = Finite 50000"
    and p1: "parseInt (ToString (JNum ''50000'')) = Finite 50000"
    and p2: "parseInt (ToString (JNum ''1e+21'')) = Finite 1"
    and p3: "parseInt (ToString (JStr [CHR 0xC2, CHR 0xA0, CHR ''4'', CHR ''2''])) = Finite 42"
    by (simp_all add: sample_req_def parseInt_eval to_double_def)
  have t: "truthy (b_user sample_req)" "truthy (b_game sample_req)"
    by (simp_all add: sample_req_def)
  have u: "truthy (b_user (sample_req\<lparr>b_amount := v\<rparr>))" "truthy (b_game (sample_req\<lparr>b_amount := v\<rparr>))" for v
    by (simp_all add: sample_req_def)
  have f: "sample_uuid \<notin> set (map order_id (orders empty_db))"
    by (simp add: empty_db_def)
  have a: "post_topup False no_text sample_uuid 7 sample_req empty_db =
     (one_db, (200, TopupBody sample_uuid (''http://localhost:3000/success?order='' @ sample_uuid)))"
    using create_order_valid [OF t, of False sample_uuid empty_db no_text 7] p f
    by (simp add: sample_req_def sample_order_def empty_db_def one_db_def sql_text_def)
  have b: "post_topup False no_text sample_uuid 7 (sample_req\<lparr>b_amount := JNum ''50000''\<rparr>) empty_db =
     (one_db, (200, TopupBody sample_uuid (''http://localhost:3000/success?order='' @ sample_uuid)))"
    using create_order_valid [OF u, of "JNum ''50000''" False sample_uuid empty_db no_text 7] p1 f
    by (simp add: sample_req_def sample_order_def empty_db_def one_db_def sql_text_def)
  have c: "post_topup False no_text sample_uuid 7 (sample_req\<lparr>b_amount := JNum ''1e+21''\<rparr>) empty_db =
     (empty_db\<lparr>orders := [sample_order\<lparr>amount := Finite 1\<rparr>]\<rparr>,
      (200, TopupBody sample_uuid (''http://localhost:3000/success?order='' @ sample_uuid)))"
    using create_order_valid [OF u, of "JNum ''1e+21''" False sample_uuid empty_db no_text 7] p2 f
    by (simp add: sample_req_def sample_order_def empty_db_def sql_text_def)
  have d: "post_topup False no_text sample_uuid 7
       (sample_req\<lparr>b_amount := JStr [CHR 0xC2, CHR 0xA0, CHR ''4'', CHR ''2'']\<rparr>) empty_db =
     (empty_db\<lparr>orders := [sample_order\<lparr>amount := Finite 42\<rparr>]\<rparr>,
      (200, TopupBody sample_uuid (''http://localhost:3000/success?order='' @ sample_uuid)))"
    using create_order_valid
      [OF u, of "JStr [CHR 0xC2, CHR 0xA0, CHR ''4'', CHR ''2'']" False sample_uuid empty_db no_text 7] p3 f
    by (simp add: sample_req_def sample_order_def empty_db_def sql_text_def)
  from a b c d p p2 p3 t f show ?thesis by blast
qed

text \<open>
  C4 as stated promises the success for every valid request. It fails when \<open>uuidv4()\<close>
  returns an id that is already stored: the request below is valid, the store reports no
  error, and the answer is 500 with nothing stored.
\<close>

theorem create_order_collision_counterexample:
  "truthy (b_user sample_req) \<and> truthy (b_game sample_req) \<and>
   parseInt (ToString (b_amount sample_req)) = Finite 50000 \<and>
   sample_uuid \<in> set (map order_id (orders one_db)) \<and>
   post_topup False no_text sample_uuid 8 sample_req one_db = (one_db, (500, ErrorBody ''DB error''))"
  by (simp add: post_topup_def insert_order_def sample_req_def one_db_def empty_db_def
      sample_order_def parseInt_eval to_double_def)

subsection \<open>Order creation: what \<open>parseInt\<close> accepts\<close>

text \<open>
  C10, as the code has it. When the amount is a string that starts with decimal digits
  \<open>ds\<close> of positive value, followed by anything that does not start with a digit (as in
  \<open>5.7\<close> or \<open>10abc\<close>), the request passes the validation and the row handed to the store
  has as amount the value of \<open>ds\<close> as a double (the rest of the string is dropped): the
  answer is 200 unless the store refuses the insert. Up to \<open>2^53\<close> that double is the value
  of \<open>ds\<close> itself (5, 10); beyond it is the nearest double, and \<open>Infinity\<close> once the
  rounded value reaches \<open>2^1024\<close>.
\<close>

theorem create_order_truncates:
  assumes "b_amount req = JStr (ds @ rest)"
    and "ds \<noteq> []" and "\<forall>c\<in>set ds. is_digit c" and "rest = [] \<or> \<not> is_digit (hd rest)"
    and "0 < dec_val ds"
    and "truthy (b_user req)" and "truthy (b_game req)"
  shows "post_topup io_err text_of uuid now req d =
           (case insert_order io_err
                   \<lparr>order_id = uuid, user = sql_text text_of (b_user req),
                    game = sql_text text_of (b_game req), amount = to_double (dec_val ds),
                    status = ''PENDING'', created_at = now\<rparr> d of
              None \<Rightarrow> (d, (500, ErrorBody ''DB error''))
            | Some d' \<Rightarrow>
                (d', (200, TopupBody uuid
                   (protocol req @ ''://'' @ host req @ ''/success?order='' @ uuid)))) \<and>
         (\<not> io_err \<and> uuid \<notin> set (map order_id (orders d)) \<longrightarrow>
            post_topup io_err text_of uuid now req d =
              (d\<lparr>orders := orders d @
                    [\<lparr>order_id = uuid, user = sql_text text_of (b_user req),
                      game = sql_text text_of (b_game req), amount = to_double (dec_val ds),
                      status = ''PENDING'', created_at = now\<rparr>]\<rparr>,
               (200, TopupBody uuid (protocol req @ ''://'' @ host req @ ''/success?order='' @ uuid)))) \<and>
         (dec_val ds \<le> 2 ^ 53 \<longrightarrow> to_double (dec_val ds) = Finite (int (dec_val ds)))"
proof -
  from assms(2,3,4) have p: "parseInt (ds @ rest) = to_double (dec_val ds)"
    by (rule parseInt_leading)
  from assms(5) have ok: "\<not> isNaN (to_double (dec_val ds))" "\<not> le_zero (to_double (dec_val ds))"
    by (simp_all add: to_double_pos)
  from assms(2) have ne: "ds @ rest \<noteq> []" by simp
  have main: "post_topup io_err text_of uuid now req d =
           (case insert_order io_err
                   \<lparr>order_id = uuid, user = sql_text text_of (b_user req),
                    game = sql_text text_of (b_game req), amount = to_double (dec_val ds),
                    status = ''PENDING'', created_at = now\<rparr> d of
              None \<Rightarrow> (d, (500, ErrorBody ''DB error''))
            | Some d' \<Rightarrow>
                (d', (200, TopupBody uuid
                   (protocol req @ ''://'' @ host req @ ''/success?order='' @ uuid))))"
    using assms(1,6,7) p ok ne by (simp add: post_topup_def Let_def)
  show ?thesis
    unfolding main by (simp add: insert_order_def to_double_exact)
qed

theorem create_order_truncates_witness:
  "dec_val ''5'' = 5 \<and> dec_val ''10'' = 10 \<and>
   post_topup False no_text sample_uuid 7 (sample_req\<lparr>b_amount := JStr ''5.7''\<rparr>) empty_db =
     (empty_db\<lparr>orders := [sample_order\<lparr>amount := Finite 5\<rparr>]\<rparr>,
      (200, TopupBody sample_uuid (''http://localhost:3000/success?order='' @ sample_uuid))) \<and>
   post_topup False no_text sample_uuid 7 (sample_req\<lparr>b_amount := JStr ''10abc''\<rparr>) empty_db =
     (empty_db\<lparr>orders := [sample_order\<lparr>amount := Finite 10\<rparr>]\<rparr>,
      (200, TopupBody sample_uuid (''http://localhost:3000/success?order='' @ sample_uuid)))"
proof -
  have v: "dec_val ''5'' = 5" "dec_val ''10'' = 10"
    by (simp_all add: dec_val_def digit_val_def)
  have f: "\<not> False \<and> sample_uuid \<notin> set (map order_id (orders empty_db))"
    by (simp add: empty_db_def)
  have h: "b_amount (sample_req\<lparr>b_amount := JStr ''5.7''\<rparr>) = JStr (''5'' @ ''.7'')"
    "''5'' \<noteq> []" "\<forall>c\<in>set ''5''. is_digit c" "''.7'' = [] \<or> \<not> is_digit (hd ''.7'')"
    "0 < dec_val ''5''"
    "truthy (b_user (sample_req\<lparr>b_amount := JStr ''5.7''\<rparr>))"
    "truthy (b_game (sample_req\<lparr>b_amount := JStr ''5.7''\<rparr>))"
    by (simp_all add: sample_req_def is_digit_def v)
  from create_order_truncates
    [OF h, where io_err = False and uuid = sample_uuid and d = empty_db and text_of = no_text and now = 7,
      THEN conjunct2, THEN conjunct1, rule_format, OF f]
  have a: "post_topup False no_text sample_uuid 7 (sample_req\<lparr>b_amount := JStr ''5.7''\<rparr>) empty_db =
     (empty_db\<lparr>orders := [sample_order\<lparr>amount := Finite 5\<rparr>]\<rparr>,
      (200, TopupBody sample_uuid (''http://localhost:3000/success?order='' @ sample_uuid)))"
    by (simp add: v sample_req_def sample_order_def empty_db_def sql_text_def to_double_def)
  have k: "b_amount (sample_req\<lparr>b_amount := JStr ''10abc''\<rparr>) = JStr (''10'' @ ''abc'')"
    "''10'' \<noteq> []" "\<forall>c\<in>set ''10''. is_digit c" "''abc'' = [] \<or> \<not> is_digit (hd ''abc'')"
    "0 < dec_val ''10''"
    "truthy (b_user (sample_req\<lparr>b_amount := JStr ''10abc''\<rparr>))"
    "truthy (b_game (sample_req\<lparr>b_amount := JStr ''10abc''\<rparr>))"
    by (simp_all add: sample_req_def is_digit_def v)
  from create_order_truncates
    [OF k, where io_err = False and uuid = sample_uuid and d = empty_db and text_of = no_text and now = 7,
      THEN conjunct2, THEN conjunct1, rule_format, OF f]
  have b: "post_topup False no_text sample_uuid 7 (sample_req\<lparr>b_amount := JStr ''10abc''\<rparr>) empty_db =
     (empty_db\<lparr>orders := [sample_order\<lparr>amount := Finite 10\<rparr>]\<rparr>,
      (200, TopupBody sample_uuid (''http://localhost:3000/success?order='' @ sample_uuid)))"
    by (simp add: v sample_req_def sample_order_def empty_db_def sql_text_def to_double_def)
  from a b v show ?thesis by blast
qed

text \<open>
  C10 as stated has the stored amount equal to the leading integer. The digits
  \<open>9007199254740993\<close> are \<open>2^53 + 1\<close>, which no double holds: the request is accepted and the
  stored amount is \<open>9007199254740992\<close>.
\<close>

theorem create_order_rounds_counterexample:
  "dec_val ''9007199254740993'' = 9007199254740993 \<and>
   post_topup False no_text sample_uuid 7
       (sample_req\<lparr>b_amount := JStr ''9007199254740993''\<rparr>) empty_db =
     (empty_db\<lparr>orders := [sample_order\<lparr>amount := Finite 9007199254740992\<rparr>]\<rparr>,
      (200, TopupBody sample_uuid (''http://localhost:3000/success?order='' @ sample_uuid))) \<and>
   Finite 9007199254740992 \<noteq> Finite 9007199254740993"
  by (simp add: post_topup_def insert_order_def sample_req_def empty_db_def sample_order_def
      sql_text_def parseInt_eval to_double_tie)

subsection \<open>The payment notice\<close>

lemma map_unmatched:
  "i \<notin> set (map order_id xs) \<Longrightarrow>
   map (\<lambda>r. if order_id r = i then r\<lparr>status := st\<rparr> else r) xs = xs"
  by (induction xs) auto

text \<open>
  C2. POST /api/webhook/mock-pay answers 400 when \<open>orderId\<close> is absent (and whenever the
  handler's test \<open>!orderId\<close> holds). For every other \<open>orderId\<close>, when the store reports no
  error, it sets the status of the rows with that id to PAID and answers 200 with
  \<open>{ok: true}\<close>; when no row has that id the answer is the same and the tables are
  unchanged.
\<close>

theorem mark_paid_cases:
  "(orderId = JUndefined \<longrightarrow>
      post_mock_pay io_err text_of orderId d = (d, (400, ErrorBody ''missing orderId''))) \<and>
   (\<not> truthy orderId \<longrightarrow>
      post_mock_pay io_err text_of orderId d = (d, (400, ErrorBody ''missing orderId''))) \<and>
   (truthy orderId \<and> \<not> io_err \<longrightarrow>
      post_mock_pay io_err text_of orderId d =
        (d\<lparr>orders := map (\<lambda>r. if order_id r = sql_text text_of orderId
                                then r\<lparr>status := ''PAID''\<rparr> else r) (orders d)\<rparr>,
         (200, OkBody))) \<and>
   (truthy orderId \<and> \<not> io_err \<and> sql_text text_of orderId \<notin> set (map order_id (orders d)) \<longrightarrow>
      post_mock_pay io_err text_of orderId d = (d, (200, OkBody)))"
  by (auto simp: post_mock_pay_def update_status_def map_unmatched)

theorem mark_paid_cases_witness:
  "post_mock_pay False no_text JUndefined one_db = (one_db, (400, ErrorBody ''missing orderId'')) \<and>
   truthy (JStr sample_uuid) \<and>
   post_mock_pay False no_text (JStr sample_uuid) one_db =
     (one_db\<lparr>orders := [sample_order\<lparr>status := ''PAID''\<rparr>]\<rparr>, (200, OkBody)) \<and>
   sql_text no_text (JStr ''no-such-order'') \<notin> set (map order_id (orders one_db)) \<and>
   post_mock_pay False no_text (JStr ''no-such-order'') one_db = (one_db, (200, OkBody))"
  using mark_paid_cases [of JUndefined False no_text one_db]
    mark_paid_cases [of "JStr sample_uuid" False no_text one_db]
    mark_paid_cases [of "JStr ''no-such-order''" False no_text one_db]
  by (simp add: sample_defs sql_text_def)

subsection \<open>The invariant of the orders table\<close>

lemma is_uuid_nonempty: "is_uuid s \<Longrightarrow> s \<noteq> []"
  by (auto simp: is_uuid_def)

lemma post_topup_orders:
  "orders (fst (post_topup io_err text_of uuid now req d)) = orders d \<or>
   (uuid \<notin> set (map order_id (orders d)) \<and>
    (\<exists>u g a. orders (fst (post_topup io_err text_of uuid now req d)) =
       orders d @ [\<lparr>order_id = uuid, user = u, game = g, amount = a,
                     status = ''PENDING'', created_at = now\<rparr>]))"
  by (auto simp: post_topup_def insert_order_def Let_def split: option.splits)

lemma post_mock_pay_orders:
  "orders (fst (post_mock_pay io_err text_of orderId d)) = orders d \<or>
   orders (fst (post_mock_pay io_err text_of orderId d)) =
     map (\<lambda>r. if order_id r = sql_text text_of orderId then r\<lparr>status := ''PAID''\<rparr> else r) (orders d)"
  by (auto simp: post_mock_pay_def update_status_def split: option.splits)

lemma paid_keeps_id:
  "order_id \<circ> (\<lambda>r. if order_id r = i then r\<lparr>status := st\<rparr> else r) = order_id"
  by (rule ext) simp

lemma orders_inv_paid:
  assumes "orders_inv d"
    and "orders d' = map (\<lambda>r. if order_id r = i then r\<lparr>status := ''PAID''\<rparr> else r) (orders d)"
  shows "orders_inv d'"
proof -
  have ids: "map order_id (orders d') = map order_id (orders d)"
    using assms(2) by (simp add: paid_keeps_id)
  have "is_uuid (order_id r) \<and> (status r = ''PENDING'' \<or> status r = ''PAID'')"
    if "r \<in> set (orders d')" for r
  proof -
    from that assms(2) obtain r0 where r0: "r0 \<in> set (orders d)"
      and r: "r = (if order_id r0 = i then r0\<lparr>status := ''PAID''\<rparr> else r0)"
      by auto
    from r0 assms(1) have "is_uuid (order_id r0) \<and> (status r0 = ''PENDING'' \<or> status r0 = ''PAID'')"
      by (simp add: orders_inv_def)
    with r show ?thesis by auto
  qed
  with ids assms(1) show ?thesis
    by (simp add: orders_inv_def)
qed

lemma exec_inv:
  assumes "orders_inv d" "wf_op x"
  shows "orders_inv (exec text_of x d)"
proof (cases x)
  case (CreateOrder io_err uuid now req)
  with assms post_topup_orders[of io_err text_of uuid now req d] show ?thesis
    by (auto simp: orders_inv_def)
next
  case (MarkPaid io_err orderId)
  from post_mock_pay_orders[of io_err text_of orderId d] show ?thesis
  proof
    assume "orders (fst (post_mock_pay io_err text_of orderId d)) = orders d"
    with assms(1) MarkPaid show ?thesis by (simp add: orders_inv_def)
  next
    assume "orders (fst (post_mock_pay io_err text_of orderId d)) =
      map (\<lambda>r. if order_id r = sql_text text_of orderId then r\<lparr>status := ''PAID''\<rparr> else r) (orders d)"
    with assms(1) have "orders_inv (fst (post_mock_pay io_err text_of orderId d))"
      by (rule orders_inv_paid)
    with MarkPaid show ?thesis by simp
  qed
qed

lemma reachable_inv: "reachable text_of d \<Longrightarrow> orders_inv d"
proof (induction rule: reachable.induct)
  case (reachable_init d)
  then show ?case by (simp add: orders_inv_def)
next
  case (reachable_step d x)
  then show ?case by (simp add: exec_inv)
qed

lemma sample_exec:
  "exec no_text (CreateOrder False sample_uuid 7 sample_req) empty_db = one_db"
  by (simp add: post_topup_def insert_order_def sample_req_def empty_db_def one_db_def
      sample_order_def sql_text_def parseInt_eval to_double_def)

lemma sample_reachable: "reachable no_text one_db"
proof -
  have "reachable no_text empty_db"
    by (rule reachable_init) (simp add: empty_db_def)
  moreover have "wf_op (CreateOrder False sample_uuid 7 sample_req)"
    by (simp add: is_uuid_def sample_uuid_def)
  ultimately have "reachable no_text (exec no_text (CreateOrder False sample_uuid 7 sample_req) empty_db)"
    by (rule reachable_step)
  then show ?thesis by (simp only: sample_exec)
qed

subsection \<open>Paying twice\<close>

text \<open>
  C7. In a reachable state, for an order of the table whose status is PENDING, the
  payment notice with its id answers 200 and leaves that order, and only rows of that id,
  with status PAID; a second notice with the same id answers 200 again and returns the
  tables exactly as the first one left them.
\<close>

theorem mark_paid_idempotent:
  assumes "reachable text_of d" and "r \<in> set (orders d)" and "status r = ''PENDING''"
  shows "snd (post_mock_pay False text_of (JStr (order_id r)) d) = (200, OkBody) \<and>
         r\<lparr>status := ''PAID''\<rparr> \<in> set (orders (fst (post_mock_pay False text_of (JStr (order_id r)) d))) \<and>
         (\<forall>r'\<in>set (orders (fst (post_mock_pay False text_of (JStr (order_id r)) d))).
            order_id r' = order_id r \<longrightarrow> r' = r\<lparr>status := ''PAID''\<rparr>) \<and>
         post_mock_pay False text_of (JStr (order_id r))
            (fst (post_mock_pay False text_of (JStr (order_id r)) d)) =
           (fst (post_mock_pay False text_of (JStr (order_id r)) d), (200, OkBody))"
proof -
  let ?f = "\<lambda>x. if order_id x = order_id r then x\<lparr>status := ''PAID''\<rparr> else x"
  from assms(1) have inv: "orders_inv d" by (rule reachable_inv)
  with assms(2) have ne: "order_id r \<noteq> []"
    by (auto simp: orders_inv_def dest: is_uuid_nonempty)
  then have step: "post_mock_pay False text_of (JStr (order_id r)) d =
      (d\<lparr>orders := map ?f (orders d)\<rparr>, (200, OkBody))"
    by (simp add: post_mock_pay_def update_status_def sql_text_def)
  have idem: "map ?f (map ?f xs) = map ?f xs" for xs
    by (induction xs) auto
  from ne have again: "post_mock_pay False text_of (JStr (order_id r)) (d\<lparr>orders := map ?f (orders d)\<rparr>) =
      (d\<lparr>orders := map ?f (orders d)\<rparr>, (200, OkBody))"
    by (simp add: post_mock_pay_def update_status_def sql_text_def idem)
  from assms(2) have mem: "r\<lparr>status := ''PAID''\<rparr> \<in> set (map ?f (orders d))"
    by force
  have uniq: "r' = r\<lparr>status := ''PAID''\<rparr>"
    if "r' \<in> set (map ?f (orders d))" and "order_id r' = order_id r" for r'
  proof -
    from that(1) obtain r0 where r0: "r0 \<in> set (orders d)" and r': "r' = ?f r0" by auto
    from r' that(2) have "order_id r0 = order_id r" by (simp split: if_splits)
    with inv r0 assms(2) have "r0 = r"
      by (auto simp: orders_inv_def distinct_map dest: inj_onD)
    with r' show ?thesis by simp
  qed
  have fst_step: "fst (post_mock_pay False text_of (JStr (order_id r)) d) =
      d\<lparr>orders := map ?f (orders d)\<rparr>"
    by (simp add: step)
  have sel: "orders (d\<lparr>orders := map ?f (orders d)\<rparr>) = map ?f (orders d)"
    by simp
  have "snd (post_mock_pay False text_of (JStr (order_id r)) d) = (200, OkBody)"
    by (simp add: step)
  moreover have "r\<lparr>status := ''PAID''\<rparr> \<in>
      set (orders (fst (post_mock_pay False text_of (JStr (order_id r)) d)))"
    unfolding fst_step sel using mem by blast
  moreover have "\<forall>r'\<in>set (orders (fst (post_mock_pay False text_of (JStr (order_id r)) d))).
      order_id r' = order_id r \<longrightarrow> r' = r\<lparr>status := ''PAID''\<rparr>"
    unfolding fst_step sel using uniq by blast
  moreover have "post_mock_pay False text_of (JStr (order_id r))
      (fst (post_mock_pay False text_of (JStr (order_id r)) d)) =
      (fst (post_mock_pay False text_of (JStr (order_id r)) d), (200, OkBody))"
    using again by (simp only: fst_step)
  ultimately show ?thesis by blast
qed


theorem mark_paid_idempotent_witness:
  "reachable no_text one_db \<and> sample_order \<in> set (orders one_db) \<and>
   status sample_order = ''PENDING'' \<and>
   post_mock_pay False no_text (JStr (order_id sample_order)) one_db =
     (one_db\<lparr>orders := [sample_order\<lparr>status := ''PAID''\<rparr>]\<rparr>, (200, OkBody)) \<and>
   post_mock_pay False no_text (JStr (order_id sample_order))
     (one_db\<lparr>orders := [sample_order\<lparr>status := ''PAID''\<rparr>]\<rparr>) =
     (one_db\<lparr>orders := [sample_order\<lparr>status := ''PAID''\<rparr>]\<rparr>, (200, OkBody))"
proof -
  have m: "sample_order \<in> set (orders one_db)" and p: "status sample_order = ''PENDING''"
    by (simp_all add: one_db_def sample_order_def)
  have e: "post_mock_pay False no_text (JStr (order_id sample_order)) one_db =
     (one_db\<lparr>orders := [sample_order\<lparr>status := ''PAID''\<rparr>]\<rparr>, (200, OkBody))"
    by (simp add: post_mock_pay_def update_status_def sql_text_def sample_defs)
  from mark_paid_idempotent [OF sample_reachable m p] sample_reachable m p e
  show ?thesis by simp
qed

subsection \<open>The life cycle of a status\<close>

text \<open>
  C3. In every state reachable by order creations and payment notices each order's status
  is PENDING or PAID. One more operation keeps every existing row at its place, either
  unchanged or moved from PENDING to PAID (so never from PAID back to PENDING), and a
  row it adds has status PENDING.
\<close>

theorem status_lifecycle:
  assumes "reachable text_of d"
  shows "(\<forall>r\<in>set (orders d). status r = ''PENDING'' \<or> status r = ''PAID'') \<and>
         length (orders d) \<le> length (orders (exec text_of x d)) \<and>
         (\<forall>i<length (orders d).
            orders (exec text_of x d) ! i = orders d ! i \<or>
            (status (orders d ! i) = ''PENDING'' \<and>
             orders (exec text_of x d) ! i = (orders d ! i)\<lparr>status := ''PAID''\<rparr>)) \<and>
         (\<forall>i. length (orders d) \<le> i \<and> i < length (orders (exec text_of x d)) \<longrightarrow>
            status (orders (exec text_of x d) ! i) = ''PENDING'')"
proof -
  from assms have inv: "orders_inv d" by (rule reachable_inv)
  then have st: "\<forall>r\<in>set (orders d). status r = ''PENDING'' \<or> status r = ''PAID''"
    by (simp add: orders_inv_def)
  show ?thesis
  proof (cases x)
    case (CreateOrder io_err uuid now req)
    from post_topup_orders[of io_err text_of uuid now req d] st CreateOrder
    show ?thesis by (auto simp: nth_append)
  next
    case (MarkPaid io_err orderId)
    from post_mock_pay_orders[of io_err text_of orderId d] show ?thesis
    proof
      assume "orders (fst (post_mock_pay io_err text_of orderId d)) = orders d"
      with st MarkPaid show ?thesis by auto
    next
      assume upd: "orders (fst (post_mock_pay io_err text_of orderId d)) =
        map (\<lambda>r. if order_id r = sql_text text_of orderId then r\<lparr>status := ''PAID''\<rparr> else r) (orders d)"
      have "orders (exec text_of x d) ! i = orders d ! i \<or>
            (status (orders d ! i) = ''PENDING'' \<and>
             orders (exec text_of x d) ! i = (orders d ! i)\<lparr>status := ''PAID''\<rparr>)"
        if "i < length (orders d)" for i
      proof -
        from that st have "status (orders d ! i) = ''PENDING'' \<or> status (orders d ! i) = ''PAID''"
          by simp
        moreover have "(orders d ! i)\<lparr>status := status (orders d ! i)\<rparr> = orders d ! i"
          by simp
        ultimately show ?thesis
          using that upd MarkPaid by (cases "status (orders d ! i) = ''PAID''") auto
      qed
      with st upd MarkPaid show ?thesis by auto
    qed
  qed
qed

theorem status_lifecycle_witness:
  "reachable no_text one_db \<and>
   status (orders one_db ! 0) = ''PENDING'' \<and>
   length (orders one_db) = 1 \<and>
   orders (exec no_text (MarkPaid False (JStr sample_uuid)) one_db) ! 0 =
     (orders one_db ! 0)\<lparr>status := ''PAID''\<rparr> \<and>
   length (orders (exec no_text (MarkPaid False (JStr sample_uuid)) one_db)) = 1"
proof -
  have e: "orders (exec no_text (MarkPaid False (JStr sample_uuid)) one_db) =
      [sample_order\<lparr>status := ''PAID''\<rparr>]"
    by (simp add: post_mock_pay_def update_status_def sql_text_def sample_defs)
  have o: "orders one_db = [sample_order]" by (simp add: one_db_def)
  from status_lifecycle [OF sample_reachable, of "MarkPaid False (JStr sample_uuid)"]
    sample_reachable e o
  show ?thesis by (simp add: sample_order_def)
qed

subsection \<open>Listing the orders\<close>

lemma sorted_desc:
  "sorted_wrt (\<lambda>a b. created_at b \<le> created_at a) (sort_key (\<lambda>r. - int (created_at r)) xs)"
proof -
  have "sorted (map (\<lambda>r. - int (created_at r)) (sort_key (\<lambda>r. - int (created_at r)) xs))"
    by (rule sorted_sort_key)
  then show ?thesis by (simp add: sorted_map)
qed

lemma take_drop_desc:
  assumes "sorted_wrt P ys"
  shows "sorted_wrt P (take n ys) \<and> (\<forall>a\<in>set (take n ys). \<forall>b\<in>set (drop n ys). P a b)"
proof -
  from assms have "sorted_wrt P (take n ys @ drop n ys)" by simp
  then show ?thesis unfolding sorted_wrt_append by blast
qed

text \<open>
  C5. GET /api/admin/orders without an admin session answers 401 with an error body, so
  with no order data. With a session, when the store reports no error, it answers 200
  with at most 200 rows (all rows when the table has no more): they are rows of the
  table, in descending order of creation time, and no row left out was created later
  than a row returned.
\<close>

theorem list_orders_cases:
  "get_admin_orders io_err None d = (401, ErrorBody ''unauth'') \<and>
   (\<exists>rows rest.
      get_admin_orders False (Some s) d = (200, OrdersBody rows) \<and>
      length rows \<le> 200 \<and> length rows = min 200 (length (orders d)) \<and>
      mset rows + mset rest = mset (orders d) \<and>
      sorted_wrt (\<lambda>a b. created_at b \<le> created_at a) rows \<and>
      (\<forall>a\<in>set rows. \<forall>b\<in>set rest. created_at b \<le> created_at a))"
proof -
  let ?ys = "sort_key (\<lambda>r. - int (created_at r)) (orders d)"
  have "get_admin_orders False (Some s) d = (200, OrdersBody (take 200 ?ys))"
    by (simp add: get_admin_orders_def select_orders_def)
  moreover have "length (take 200 ?ys) = min 200 (length (orders d))"
    by simp
  moreover have "length (take 200 ?ys) \<le> 200"
    by simp
  moreover have "mset (take 200 ?ys) + mset (drop 200 ?ys) = mset (orders d)"
    by (simp add: union_code)
  moreover note take_drop_desc [OF sorted_desc, of 200 "orders d"]
  moreover have "get_admin_orders io_err None d = (401, ErrorBody ''unauth'')"
    by (simp add: get_admin_orders_def)
  ultimately show ?thesis by blast
qed

theorem list_orders_cases_witness:
  "get_admin_orders False None two_db = (401, ErrorBody ''unauth'') \<and>
   get_admin_orders False (Some sample_session) two_db = (200, OrdersBody [later_order, sample_order])"
proof -
  have "get_admin_orders False (Some sample_session) two_db =
      (200, OrdersBody [later_order, sample_order])"
    by (simp add: get_admin_orders_def select_orders_def two_db_def empty_db_def
        sample_order_def later_order_def)
  with list_orders_cases [of False two_db sample_session] show ?thesis by simp
qed

subsection \<open>Login\<close>

lemma find_unique:
  assumes "distinct (map f xs)" and "x \<in> set xs"
  shows "find (\<lambda>a. f a = f x) xs = Some x"
  using assms by (induction xs) force+

lemma find_none_iff: "u \<notin> set (map f xs) \<Longrightarrow> find (\<lambda>a. f a = u) xs = None"
  by (induction xs) auto

text \<open>
  C6. POST /api/admin/login answers 400 when the username or the password is missing. When
  both are present and the store reports no error, it answers 401 if no admin has that
  username, and 401 if the admin of that username does not pass the password comparison;
  if the comparison succeeds it answers 200 and the session holds exactly that admin's
  id and username. Whenever the answer is not 200 the session is what it was before, so
  a failed login establishes none.
\<close>

theorem login_cases:
  "(\<not> truthy uname \<or> \<not> truthy password \<longrightarrow>
      post_login io_err text_of compare uname password sess d = (sess, (400, ErrorBody ''Missing''))) \<and>
   (truthy uname \<and> truthy password \<and> \<not> io_err \<and>
    sql_text text_of uname \<notin> set (map username (admins d)) \<longrightarrow>
      post_login io_err text_of compare uname password sess d = (sess, (401, ErrorBody ''Unauthorized''))) \<and>
   (truthy uname \<and> truthy password \<and> \<not> io_err \<and> distinct (map username (admins d)) \<and>
    row \<in> set (admins d) \<and> username row = sql_text text_of uname \<and>
    \<not> compare password (password_hash row) \<longrightarrow>
      post_login io_err text_of compare uname password sess d = (sess, (401, ErrorBody ''Unauthorized''))) \<and>
   (truthy uname \<and> truthy password \<and> \<not> io_err \<and> distinct (map username (admins d)) \<and>
    row \<in> set (admins d) \<and> username row = sql_text text_of uname \<and>
    compare password (password_hash row) \<longrightarrow>
      post_login io_err text_of compare uname password sess d =
        (Some \<lparr>sess_id = admin_id row, sess_username = username row\<rparr>, (200, OkBody))) \<and>
   (fst (snd (post_login io_err text_of compare uname password sess d)) \<noteq> 200 \<longrightarrow>
      fst (post_login io_err text_of compare uname password sess d) = sess)"
proof -
  have none: "get_admin False (sql_text text_of uname) d = Some None"
    if "sql_text text_of uname \<notin> set (map username (admins d))"
    using that by (simp add: get_admin_def find_none_iff)
  have some: "get_admin False (sql_text text_of uname) d = Some (Some row)"
    if "distinct (map username (admins d))" "row \<in> set (admins d)"
       "username row = sql_text text_of uname"
    using find_unique [OF that(1,2)] that(3) by (simp add: get_admin_def)
  have fail: "fst (snd (post_login io_err text_of compare uname password sess d)) \<noteq> 200 \<longrightarrow>
      fst (post_login io_err text_of compare uname password sess d) = sess"
    by (simp add: post_login_def split: option.splits)
  show ?thesis
    using none some fail by (auto simp: post_login_def)
qed

theorem login_cases_witness:
  "post_login False no_text sample_compare JUndefined (JStr ''changeit'') None admin_db =
     (None, (400, ErrorBody ''Missing'')) \<and>
   post_login False no_text sample_compare (JStr ''root'') (JStr ''changeit'') None admin_db =
     (None, (401, ErrorBody ''Unauthorized'')) \<and>
   post_login False no_text sample_compare (JStr ''admin'') (JStr ''wrongpass'') None admin_db =
     (None, (401, ErrorBody ''Unauthorized'')) \<and>
   post_login False no_text sample_compare (JStr ''admin'') (JStr ''changeit'') None admin_db =
     (Some sample_session, (200, OkBody))"
  using login_cases [where uname = "JUndefined" and password = "JStr ''changeit''" and io_err = False and text_of = no_text
      and compare = sample_compare and sess = None and d = admin_db and row = sample_admin]
    login_cases [where uname = "JStr ''root''" and password = "JStr ''changeit''" and io_err = False and text_of = no_text
      and compare = sample_compare and sess = None and d = admin_db and row = sample_admin]
    login_cases [where uname = "JStr ''admin''" and password = "JStr ''wrongpass''" and io_err = False and text_of = no_text
      and compare = sample_compare and sess = None and d = admin_db and row = sample_admin]
    login_cases [where uname = "JStr ''admin''" and password = "JStr ''changeit''" and io_err = False and text_of = no_text
      and compare = sample_compare and sess = None and d = admin_db and row = sample_admin]
  by (simp add: admin_db_def sample_admin_def sample_compare_def sample_session_def sql_text_def)

subsection \<open>The seed account\<close>

text \<open>
  C9. At start, when the admins table is empty (and neither the store nor the hashing
  fails), exactly one row is inserted: username \<open>admin\<close>, with the hash \<open>bcrypt.hash\<close>
  returned for the password \<open>changeit\<close> with cost 10; when the table is not empty nothing
  changes. The orders are not touched. The table refuses an insert whose username is
  already there, so an accepted insert keeps the usernames pairwise different.
\<close>

theorem seed_admin_cases:
  "(admins d = [] \<and> \<not> count_err \<and> \<not> insert_err \<and> hash ''changeit'' 10 = Some h \<longrightarrow>
      admins (seed_admin count_err insert_err hash d) =
        [\<lparr>admin_id = Suc (admin_seq d), username = ''admin'', password_hash = h\<rparr>]) \<and>
   (admins d \<noteq> [] \<longrightarrow> seed_admin count_err insert_err hash d = d) \<and>
   orders (seed_admin count_err insert_err hash d) = orders d \<and>
   (u \<in> set (map username (admins d)) \<longrightarrow> insert_admin io_err u h' d = None) \<and>
   (distinct (map username (admins d)) \<and> insert_admin io_err u h' d = Some d' \<longrightarrow>
      distinct (map username (admins d')))"
  by (auto simp: seed_admin_def count_admins_def insert_admin_def Let_def split: option.splits)

theorem seed_admin_cases_witness:
  "admins empty_db = [] \<and> sample_hash ''changeit'' 10 = Some ''$2b$10$seedhash'' \<and>
   seed_admin False False sample_hash empty_db = admin_db \<and>
   seed_admin False False sample_hash admin_db = admin_db \<and>
   insert_admin False ''admin'' ''other'' admin_db = None"
proof -
  have "seed_admin False False sample_hash empty_db = admin_db"
    by (simp add: seed_admin_def count_admins_def insert_admin_def sample_hash_def
        empty_db_def admin_db_def sample_admin_def)
  with seed_admin_cases [where d = empty_db and count_err = False and insert_err = False and hash = sample_hash
      and h = "''$2b$10$seedhash''" and u = "''admin''" and io_err = False and h' = "''other''"
      and d' = admin_db]
    seed_admin_cases [where d = admin_db and count_err = False and insert_err = False and hash = sample_hash
      and h = "''$2b$10$seedhash''" and u = "''admin''" and io_err = False and h' = "''other''"
      and d' = admin_db]
  show ?thesis
    by (simp add: sample_hash_def empty_db_def admin_db_def sample_admin_def)
qed

subsection \<open>From creation to the listing\<close>










end
